theory Spec2Isabelle
  imports Main "HOL-Library.Word"
begin

unbundle bit_operations_syntax

section \<open>The HDMI-CEC bridge of homespan-hdmi-cec.ino\<close>

text \<open>
  The sketch glues two libraries together: HomeSpan (the accessory framework, which owns the
  characteristics and calls \<open>update\<close>) and CEC_Device (the bus engine, which calls
  \<open>OnReady\<close> and \<open>OnReceiveComplete\<close> and offers \<open>TransmitFrame\<close>). Neither
  library is part of the sketch. What the sketch does to them is modelled as effects on one
  record: the frames handed to \<open>TransmitFrame\<close>, the lines printed, the television object
  behind \<open>connectedTV\<close>, and the buffer indices a handler reads.
\<close>

subsection \<open>Data\<close>

type_synonym u8 = "8 word"

text \<open>One argument of a printf-style call.\<close>

datatype printf_arg = ArgInt int | ArgStr string

text \<open>
  A HomeSpan characteristic, as far as the sketch uses it: \<open>getNewVal()\<close> reads
  \<open>newVal\<close>, \<open>updated()\<close> reads \<open>updated\<close>, and \<open>setVal(v)\<close> stores \<open>v\<close> as
  both the current and the requested value.
\<close>

record SpanCharacteristic =
  val :: int
  newVal :: int
  updated :: bool

definition setVal :: "SpanCharacteristic \<Rightarrow> int \<Rightarrow> SpanCharacteristic" where
  "setVal c v = c\<lparr>val := v, newVal := v\<rparr>"

text \<open>\<open>struct HomeSpanTVSpeaker\<close> and \<open>struct HomeSpanTV\<close>: their characteristics.\<close>

record HomeSpanTVSpeaker =
  volume :: SpanCharacteristic
  volumeType :: SpanCharacteristic

record HomeSpanTV =
  active :: SpanCharacteristic
  activeID :: SpanCharacteristic
  remoteKey :: SpanCharacteristic
  settingsKey :: SpanCharacteristic

text \<open>
  The global \<open>device\<close> and the serial port. \<open>LogicalAddress\<close> is what
  \<open>CEC_Device::LogicalAddress()\<close> returns and \<open>Promiscuous\<close> the flag last handed to
  \<open>Initialize\<close>. \<open>connectedTV\<close> is the pointer member: \<open>None\<close> while it is null,
  otherwise the television object it points to. \<open>transmitted\<close> lists the calls of
  \<open>TransmitFrame\<close> in order, each as the target address and the \<open>count\<close> bytes handed
  over; \<open>printed\<close> lists the printf-style calls (format and arguments); \<open>reads\<close> lists
  the indices at which a receive handler read its buffer.
\<close>

record device =
  LogicalAddress :: int
  Promiscuous :: bool
  connectedTV :: "HomeSpanTV option"
  transmitted :: "(int \<times> u8 list) list"
  printed :: "(string \<times> printf_arg list) list"
  reads :: "nat list"

subsection \<open>Library calls as effects\<close>

text \<open>
  \<open>TransmitFrame(targetAddress, buffer, count)\<close>: the first \<open>count\<close> bytes of the
  buffer go out to \<open>targetAddress\<close>. Every caller in the sketch ignores the result.
\<close>

definition TransmitFrame :: "int \<Rightarrow> u8 list \<Rightarrow> int \<Rightarrow> device \<Rightarrow> device" where
  "TransmitFrame targetAddress buffer count d =
     d\<lparr>transmitted := transmitted d @ [(targetAddress, take (nat count) buffer)]\<rparr>"

text \<open>\<open>DbgPrint\<close>, \<open>Serial.printf\<close> and \<open>Serial.print\<close>: the format and its arguments.\<close>

definition printf :: "string \<Rightarrow> printf_arg list \<Rightarrow> device \<Rightarrow> device" where
  "printf fmt args d = d\<lparr>printed := printed d @ [(fmt, args)]\<rparr>"

text \<open>\<open>Serial.println\<close> ends the line with CR LF.\<close>

definition println :: "string \<Rightarrow> device \<Rightarrow> device" where
  "println s d = printf (s @ [CHR 0x0D, CHR 0x0A]) [] d"

text \<open>A read of \<open>buffer[i]\<close> leaves its index in the trace.\<close>

definition rd :: "nat \<Rightarrow> device \<Rightarrow> device" where
  "rd i d = d\<lparr>reads := reads d @ [i]\<rparr>"

text \<open>A C string literal is its bytes and a terminating NUL.\<close>

definition cstr :: "u8 list \<Rightarrow> u8 list" where
  "cstr bs = bs @ [0]"

subsection \<open>OnReady\<close>

definition CEC_PHYSICAL_ADDRESS :: int where
  "CEC_PHYSICAL_ADDRESS = 0x3000"

text \<open>
  \<open>CEC_DEVICE_TYPE\<close> is \<open>CEC_Device::CDT_PLAYBACK_DEVICE\<close>, an enumerator of the library's
  header; its value, as the \<open>unsigned char\<close> stored in the buffer, is the parameter \<open>ty\<close>.
\<close>

definition report_physical_address :: "u8 \<Rightarrow> u8 list" where
  "report_physical_address ty =
     [0x84, word_of_int (drop_bit 8 CEC_PHYSICAL_ADDRESS),
      word_of_int (CEC_PHYSICAL_ADDRESS AND 0xff), ty]"

definition OnReady :: "u8 \<Rightarrow> int \<Rightarrow> device \<Rightarrow> device" where
  "OnReady ty logicalAddress d =
     (let buf = report_physical_address ty;
          d = printf ''Device ready, Logical address assigned: %d\<newline>'' [ArgInt logicalAddress] d
      in TransmitFrame 0xf buf 4 d)"

subsection \<open>SetTVDevice\<close>

definition SetTVDevice :: "HomeSpanTV \<Rightarrow> device \<Rightarrow> device" where
  "SetTVDevice tv d = d\<lparr>connectedTV := Some tv\<rparr>"

subsection \<open>HomeSpanTVSpeaker::update\<close>

definition HomeSpanTVSpeaker_update :: "HomeSpanTVSpeaker \<Rightarrow> device \<Rightarrow> bool \<times> device" where
  "HomeSpanTVSpeaker_update spk d =
     (let d = (if updated (volume spk) then
                 (if newVal (volume spk) = 0 then
                    TransmitFrame 0x40 (cstr [0x46]) 1 (printf ''Volume Up'' [] d)
                  else
                    TransmitFrame 0x40 (cstr [0x8f]) 1 (printf ''Volume Down'' [] d))
               else d);
          d = (if updated (volumeType spk) then printf ''Updated volume type\<newline>'' [] d else d)
      in (True, d))"

subsection \<open>HomeSpanTV::update\<close>

text \<open>
  The four \<open>if (x->updated())\<close> blocks run in the order of the source; the \<open>switch\<close> on the
  remote key is the chain of comparisons, its \<open>default\<close> the last branch.
\<close>

definition HomeSpanTV_update :: "HomeSpanTV \<Rightarrow> device \<Rightarrow> bool \<times> device" where
  "HomeSpanTV_update tv d =
     (let d = (if updated (active tv) then
                 (let d = printf ''Set TV Power to: %s\<newline>''
                            [ArgStr (if newVal (active tv) \<noteq> 0 then ''ON'' else ''OFF'')] d
                  in if newVal (active tv) \<noteq> 0 then TransmitFrame 0x0 (cstr [0x0d]) 1 d
                     else TransmitFrame 0x0F (cstr [0x36]) 1 d)
               else d);
          d = (if updated (activeID tv) then
                 printf ''Set Input Source to HDMI-%d\<newline>'' [ArgInt (newVal (activeID tv))] d
               else d);
          d = (if updated (settingsKey tv) then
                 printf (''Received request to '' @ [CHR 0x22] @ ''View TV Settings'' @ [CHR 0x22]
                           @ ''\<newline>'') [] d
               else d);
          d = (if updated (remoteKey tv) then
                 (let d = printf ''Remote Control key pressed: '' [] d;
                      k = newVal (remoteKey tv)
                  in if k = 4 then
                       TransmitFrame 0x48 (cstr [0x44, 0x01]) 2 (printf ''UP ARROW\<newline>'' [] d)
                     else if k = 5 then
                       TransmitFrame 0x48 (cstr [0x44, 0x02]) 2 (printf ''DOWN ARROW\<newline>'' [] d)
                     else if k = 6 then
                       TransmitFrame 0x48 (cstr [0x44, 0x03]) 2 (printf ''LEFT ARROW\<newline>'' [] d)
                     else if k = 7 then
                       TransmitFrame 0x48 (cstr [0x44, 0x04]) 2 (printf ''RIGHT ARROW\<newline>'' [] d)
                     else if k = 8 then
                       TransmitFrame 0x48 (cstr [0x44, 0x44]) 2 (printf ''SELECT\<newline>'' [] d)
                     else if k = 9 then
                       TransmitFrame 0x48 (cstr [0x44, 0x09]) 2 (printf ''BACK\<newline>'' [] d)
                     else if k = 11 then
                       TransmitFrame 0x48 (cstr [0x44, 0x44]) 2 (printf ''PLAY/PAUSE\<newline>'' [] d)
                     else if k = 15 then
                       TransmitFrame 0x48 (cstr [0x44, 0x35]) 2 (printf ''INFO\<newline>'' [] d)
                     else printf ''UNKNOWN KEY\<newline>'' [] d)
               else d)
      in (True, d))"

subsection \<open>OnReceiveComplete\<close>

text \<open>
  The handler gets a pointer and a count. The pointer is modelled as the bytes found at each
  index from it (\<open>buffer i\<close> is \<open>buffer[i]\<close>); the frame is the first \<open>count\<close> of them, and
  what lies at the indices from \<open>count\<close> on is whatever the memory holds there. Every read
  is recorded by \<open>rd\<close>, so that a read past the frame shows in \<open>reads\<close>.

  The loop \<open>for (int i = 1; i < count; i++) DbgPrint(":%02X", buffer[i])\<close>:
\<close>

function print_bytes :: "(nat \<Rightarrow> u8) \<Rightarrow> int \<Rightarrow> int \<Rightarrow> device \<Rightarrow> device" where
  "print_bytes buffer i count d =
     (if i < count then
        print_bytes buffer (i + 1) count
          (printf '':%02X'' [ArgInt (uint (buffer (nat i)))] (rd (nat i) d))
      else d)"
  by pat_completeness auto
termination
  by (relation "measure (\<lambda>(buffer, i, count, d). nat (count - i))") auto

declare print_bytes.simps [simp del]

text \<open>
  \<open>now\<close> is what \<open>millis()\<close> returns. The result is \<open>None\<close> where the handler dereferences
  \<open>connectedTV\<close> while it is null.
\<close>

definition OnReceiveComplete ::
  "u8 \<Rightarrow> int \<Rightarrow> (nat \<Rightarrow> u8) \<Rightarrow> int \<Rightarrow> bool \<Rightarrow> device \<Rightarrow> device option" where
  "OnReceiveComplete ty now buffer count ack d =
     (let d = printf ''Packet received at %ld: %02X'' [ArgInt now, ArgInt (uint (buffer 0))] (rd 0 d);
          d = print_bytes buffer 1 count d;
          d = (if \<not> ack then printf '' NAK'' [] d else d);
          d = printf ''\<newline>'' [] d;
          d = rd 0 d
      in if uint (buffer 0) AND 0xf \<noteq> LogicalAddress d then Some d
         else if count < 1 then Some d
         else
           (let d = printf ''This one's for us...\<newline>'' [] d;
                d = rd 1 d;
                d = (if buffer 1 = 0x83 then
                       TransmitFrame 0xf (report_physical_address ty) 4 d
                     else if buffer 1 = 0x8c then
                       TransmitFrame 0xf (cstr [0x87, 0x01, 0x23, 0x45]) 4 d
                     else if buffer 1 = 0x46 then
                       TransmitFrame 0x4f (cstr [0x47, 0x52, 0x44, 0x4d]) 4
                         (println ''Give OSD name...\<newline>'' d)
                     else d);
                d = rd 0 d
            in if buffer 0 = 0x04 then
                 (let d = rd 1 d
                  in if buffer 1 = 0x90 then
                       (let d = printf ''Hello, TV...\<newline>'' [] d;
                            d = rd 2 d
                        in if buffer 2 = 0x00 then
                             (case connectedTV d of
                                None \<Rightarrow> None
                              | Some tv \<Rightarrow>
                                  Some (d\<lparr>connectedTV := Some (tv\<lparr>active := setVal (active tv) 1\<rparr>)\<rparr>))
                           else Some d)
                     else Some d)
               else Some d))"

subsection \<open>Concrete inputs\<close>

text \<open>Memory that holds the listed bytes and zeros after them.\<close>

definition bytes_at :: "u8 list \<Rightarrow> nat \<Rightarrow> u8" where
  "bytes_at bs i = (if i < length bs then bs ! i else 0)"

text \<open>
  The television of \<open>setup\<close>: \<open>Active(0)\<close>, \<open>ActiveIdentifier(3)\<close>, and the two keys, none
  of them updated.
\<close>

definition fresh :: "int \<Rightarrow> SpanCharacteristic" where
  "fresh v = \<lparr>val = v, newVal = v, updated = False\<rparr>"

definition Test_TV :: HomeSpanTV where
  "Test_TV = \<lparr>active = fresh 0, activeID = fresh 3, remoteKey = fresh 0, settingsKey = fresh 0\<rparr>"

text \<open>The same television when the remote control widget has sent key \<open>k\<close>.\<close>

definition key_press :: "int \<Rightarrow> HomeSpanTV" where
  "key_press k = Test_TV\<lparr>remoteKey := \<lparr>val = 0, newVal = k, updated = True\<rparr>\<rparr>"

text \<open>Key \<open>k\<close> sent in the same request that switches the television on.\<close>

definition key_press_with_power_on :: "int \<Rightarrow> HomeSpanTV" where
  "key_press_with_power_on k = (key_press k)\<lparr>active := \<lparr>val = 0, newVal = 1, updated = True\<rparr>\<rparr>"

text \<open>
  The device after \<open>setup\<close>, in promiscuous mode, holding logical address 4 (the first
  playback address). The three traces start empty here: they record what happens from this
  point on, not the lines \<open>setup\<close> printed.
\<close>

definition player :: device where
  "player = SetTVDevice Test_TV
     \<lparr>LogicalAddress = 4, Promiscuous = True, connectedTV = None,
      transmitted = [], printed = [], reads = []\<rparr>"

section \<open>Properties\<close>

subsection \<open>Auxiliary facts\<close>

lemma report_physical_address_bytes:
  "report_physical_address ty = [0x84, 0x30, 0x00, ty]"
  by (simp add: report_physical_address_def CEC_PHYSICAL_ADDRESS_def drop_bit_eq_div)

text \<open>The printing loop only prints and reads, at the indices from \<open>i\<close> up to \<open>count\<close>.\<close>

lemma print_bytes_eq:
  "0 \<le> i \<Longrightarrow> print_bytes buffer i count d =
     d\<lparr>printed := printed d @ map (\<lambda>k. ('':%02X'', [ArgInt (uint (buffer k))])) [nat i..<nat count],
       reads := reads d @ [nat i..<nat count]\<rparr>"
proof (induction buffer i count d rule: print_bytes.induct)
  case (1 buffer i count d)
  show ?case
  proof (cases "i < count")
    case True
    with "1.prems" have u: "[nat i..<nat count] = nat i # [nat (i + 1)..<nat count]"
      by (simp add: upt_conv_Cons nat_add_distrib)
    from True have "print_bytes buffer i count d =
        print_bytes buffer (i + 1) count
          (printf '':%02X'' [ArgInt (uint (buffer (nat i)))] (rd (nat i) d))"
      by (subst print_bytes.simps) simp
    also have "\<dots> =
        d\<lparr>printed := printed d @ map (\<lambda>k. ('':%02X'', [ArgInt (uint (buffer k))])) [nat i..<nat count],
          reads := reads d @ [nat i..<nat count]\<rparr>"
      using "1.IH" [OF True] "1.prems" by (simp add: u printf_def rd_def)
    finally show ?thesis .
  next
    case False
    then show ?thesis by (subst print_bytes.simps) simp
  qed
qed

text \<open>What each library call changes in the record, field by field.\<close>

lemma printf_effect:
  "LogicalAddress (printf fmt args d) = LogicalAddress d"
  "Promiscuous (printf fmt args d) = Promiscuous d"
  "connectedTV (printf fmt args d) = connectedTV d"
  "transmitted (printf fmt args d) = transmitted d"
  "printed (printf fmt args d) = printed d @ [(fmt, args)]"
  "reads (printf fmt args d) = reads d"
  by (simp_all add: printf_def)

lemma println_effect:
  "LogicalAddress (println s d) = LogicalAddress d"
  "Promiscuous (println s d) = Promiscuous d"
  "connectedTV (println s d) = connectedTV d"
  "transmitted (println s d) = transmitted d"
  "printed (println s d) = printed d @ [(s @ [CHR 0x0D, CHR 0x0A], [])]"
  "reads (println s d) = reads d"
  by (simp_all add: println_def printf_def)

lemma rd_effect:
  "LogicalAddress (rd i d) = LogicalAddress d"
  "Promiscuous (rd i d) = Promiscuous d"
  "connectedTV (rd i d) = connectedTV d"
  "transmitted (rd i d) = transmitted d"
  "printed (rd i d) = printed d"
  "reads (rd i d) = reads d @ [i]"
  by (simp_all add: rd_def)

lemma TransmitFrame_effect:
  "LogicalAddress (TransmitFrame a b n d) = LogicalAddress d"
  "Promiscuous (TransmitFrame a b n d) = Promiscuous d"
  "connectedTV (TransmitFrame a b n d) = connectedTV d"
  "transmitted (TransmitFrame a b n d) = transmitted d @ [(a, take (nat n) b)]"
  "printed (TransmitFrame a b n d) = printed d"
  "reads (TransmitFrame a b n d) = reads d"
  by (simp_all add: TransmitFrame_def)

lemma print_bytes_effect:
  "0 \<le> i \<Longrightarrow> LogicalAddress (print_bytes buffer i count d) = LogicalAddress d"
  "0 \<le> i \<Longrightarrow> Promiscuous (print_bytes buffer i count d) = Promiscuous d"
  "0 \<le> i \<Longrightarrow> connectedTV (print_bytes buffer i count d) = connectedTV d"
  "0 \<le> i \<Longrightarrow> transmitted (print_bytes buffer i count d) = transmitted d"
  "0 \<le> i \<Longrightarrow> printed (print_bytes buffer i count d) =
     printed d @ map (\<lambda>k. ('':%02X'', [ArgInt (uint (buffer k))])) [nat i..<nat count]"
  "0 \<le> i \<Longrightarrow> reads (print_bytes buffer i count d) = reads d @ [nat i..<nat count]"
  by (simp_all add: print_bytes_eq)

lemmas effects =
  printf_effect println_effect rd_effect TransmitFrame_effect print_bytes_effect

lemmas handler_defs =
  OnReceiveComplete_def Let_def effects cstr_def report_physical_address_bytes setVal_def

lemmas update_defs = HomeSpanTV_update_def Let_def effects cstr_def

lemmas input_defs =
  bytes_at_def player_def SetTVDevice_def Test_TV_def fresh_def key_press_def
  key_press_with_power_on_def

subsection \<open>Frames received\<close>

text \<open>
  C1, as amended. The handler filters by destination whether or not promiscuous mode is on:
  for every inbound frame whose destination nibble (the low nibble of the first byte) differs
  from the device's logical address, it returns with no frame transmitted and with the
  television object, the logical address and the promiscuous flag as they were. The
  hypothesis says nothing about \<open>Promiscuous d\<close>, and the handler never reads it.
\<close>

theorem not_for_us_dropped:
  assumes "uint (buffer 0) AND 0xf \<noteq> LogicalAddress d"
  shows "map_option transmitted (OnReceiveComplete ty now buffer count ack d) = Some (transmitted d)
       \<and> map_option connectedTV (OnReceiveComplete ty now buffer count ack d) = Some (connectedTV d)
       \<and> map_option LogicalAddress (OnReceiveComplete ty now buffer count ack d)
           = Some (LogicalAddress d)
       \<and> map_option Promiscuous (OnReceiveComplete ty now buffer count ack d)
           = Some (Promiscuous d)"
proof -
  have 1: "map_option transmitted (OnReceiveComplete ty now buffer count ack d)
             = Some (transmitted d)"
    using assms by (simp add: handler_defs)
  have 2: "map_option connectedTV (OnReceiveComplete ty now buffer count ack d)
             = Some (connectedTV d)"
    using assms by (simp add: handler_defs)
  have 3: "map_option LogicalAddress (OnReceiveComplete ty now buffer count ack d)
             = Some (LogicalAddress d)"
    using assms by (simp add: handler_defs)
  have 4: "map_option Promiscuous (OnReceiveComplete ty now buffer count ack d)
             = Some (Promiscuous d)"
    using assms by (simp add: handler_defs)
  from 1 2 3 4 show ?thesis by blast
qed

text \<open>
  The television (address 0) asks the device at address 8 for its physical address; the
  device at address 4 hears it in promiscuous mode and does nothing.
\<close>

theorem not_for_us_dropped_witness:
  "Promiscuous player
   \<and> uint (bytes_at [0x08, 0x83] 0) AND 0xf \<noteq> LogicalAddress player
   \<and> map_option transmitted (OnReceiveComplete 4 0 (bytes_at [0x08, 0x83]) 2 True player) = Some []
   \<and> map_option connectedTV (OnReceiveComplete 4 0 (bytes_at [0x08, 0x83]) 2 True player)
       = Some (Some Test_TV)"
  using not_for_us_dropped [of "bytes_at [0x08, 0x83]" player 4 0 2 True]
  by (simp add: input_defs)

text \<open>
  C1 as stated fails in its second half: with promiscuous mode on, the frame \<open>08:83\<close> is
  not routed by opcode (nothing is transmitted), while the same request addressed to the
  device, \<open>04:83\<close>, is answered.
\<close>

theorem promiscuous_frame_not_routed:
  "Promiscuous player
   \<and> map_option transmitted (OnReceiveComplete 4 0 (bytes_at [0x08, 0x83]) 2 True player) = Some []
   \<and> map_option transmitted (OnReceiveComplete 4 0 (bytes_at [0x04, 0x83]) 2 True player)
       = Some [(0xf, [0x84, 0x30, 0x00, 4])]"
  by (simp add: handler_defs input_defs)

text \<open>
  C2 fails on the code. A frame of one byte addressed to the device (a poll, \<open>04\<close>, with
  \<open>count = 1\<close>) passes the test \<open>count < 1\<close>, and the handler reads the opcode at index 1
  for the \<open>switch\<close> and again for the comparison with \<open>0x90\<close>. A frame of two bytes
  \<open>04:90\<close> makes it read the operand at index 2.
\<close>

theorem reads_past_the_frame:
  "map_option reads (OnReceiveComplete 4 0 (bytes_at [0x04]) 1 True player) = Some [0, 0, 1, 0, 1]
   \<and> map_option reads (OnReceiveComplete 4 0 (bytes_at [0x04, 0x90]) 2 True player)
       = Some [0, 1, 0, 1, 0, 1, 2]"
  by (simp add: handler_defs input_defs upt_conv_Cons)

text \<open>
  C3. A frame addressed to the device (its destination nibble is the logical address) that
  has an opcode byte, and that byte is \<open>0x83\<close>, makes the handler transmit exactly one
  frame: to \<open>0xF\<close>, with the bytes \<open>84 30 00\<close> and the device type.
\<close>

theorem give_physical_address_answered:
  assumes "uint (buffer 0) AND 0xf = LogicalAddress d" and "2 \<le> count" and "buffer 1 = 0x83"
  shows "map_option transmitted (OnReceiveComplete ty now buffer count ack d)
           = Some (transmitted d @ [(0xf, [0x84, 0x30, 0x00, ty])])"
  using assms by (simp add: handler_defs)

theorem give_physical_address_answered_witness:
  "uint (bytes_at [0x04, 0x83] 0) AND 0xf = LogicalAddress player
   \<and> (2::int) \<le> 2 \<and> bytes_at [0x04, 0x83] 1 = 0x83
   \<and> map_option transmitted (OnReceiveComplete 4 0 (bytes_at [0x04, 0x83]) 2 True player)
       = Some [(0xf, [0x84, 0x30, 0x00, 4])]"
  using give_physical_address_answered [of "bytes_at [0x04, 0x83]" player 2 4 0 True]
  by (simp add: input_defs)

text \<open>
  C9. For a frame addressed to the device that has an opcode byte: opcode \<open>0x8C\<close> makes the
  handler transmit exactly one frame, to \<open>0xF\<close>, with the bytes \<open>87 01 23 45\<close>; opcode
  \<open>0x46\<close> makes it transmit exactly one frame with the four bytes \<open>47 52 44 4D\<close> (the
  target address it hands over is \<open>0x4f\<close>).
\<close>

theorem vendor_id_and_name_answered:
  assumes "uint (buffer 0) AND 0xf = LogicalAddress d" and "2 \<le> count"
  shows "(buffer 1 = 0x8c \<longrightarrow>
            map_option transmitted (OnReceiveComplete ty now buffer count ack d)
              = Some (transmitted d @ [(0xf, [0x87, 0x01, 0x23, 0x45])]))
       \<and> (buffer 1 = 0x46 \<longrightarrow>
            map_option transmitted (OnReceiveComplete ty now buffer count ack d)
              = Some (transmitted d @ [(0x4f, [0x47, 0x52, 0x44, 0x4d])]))"
proof (intro conjI impI)
  assume "buffer 1 = 0x8c"
  with assms show "map_option transmitted (OnReceiveComplete ty now buffer count ack d)
              = Some (transmitted d @ [(0xf, [0x87, 0x01, 0x23, 0x45])])"
    by (simp add: handler_defs)
next
  assume "buffer 1 = 0x46"
  with assms show "map_option transmitted (OnReceiveComplete ty now buffer count ack d)
              = Some (transmitted d @ [(0x4f, [0x47, 0x52, 0x44, 0x4d])])"
    by (simp add: handler_defs)
qed

theorem vendor_id_and_name_answered_witness:
  "uint (bytes_at [0x04, 0x8c] 0) AND 0xf = LogicalAddress player
   \<and> bytes_at [0x04, 0x8c] 1 = 0x8c
   \<and> map_option transmitted (OnReceiveComplete 4 0 (bytes_at [0x04, 0x8c]) 2 True player)
       = Some [(0xf, [0x87, 0x01, 0x23, 0x45])]
   \<and> uint (bytes_at [0x04, 0x46] 0) AND 0xf = LogicalAddress player
   \<and> bytes_at [0x04, 0x46] 1 = 0x46
   \<and> map_option transmitted (OnReceiveComplete 4 0 (bytes_at [0x04, 0x46]) 2 True player)
       = Some [(0x4f, [0x47, 0x52, 0x44, 0x4d])]"
  using vendor_id_and_name_answered [of "bytes_at [0x04, 0x8c]" player 2 4 0 True]
    vendor_id_and_name_answered [of "bytes_at [0x04, 0x46]" player 2 4 0 True]
  by (simp add: input_defs)

text \<open>
  C6. For a frame of at least three bytes addressed to the device whose header byte is
  \<open>0x04\<close> and whose opcode byte is \<open>0x90\<close>, with a television connected: when the operand
  byte is \<open>0x00\<close> the handler sets the television's Active characteristic to 1 (true), and
  when the operand is anything else the television is left as it was.
\<close>

theorem image_view_on_sets_active:
  assumes "uint (buffer 0) AND 0xf = LogicalAddress d" and "3 \<le> count"
    and "buffer 0 = 0x04" and "buffer 1 = 0x90" and "connectedTV d = Some tv"
  shows "map_option connectedTV (OnReceiveComplete ty now buffer count ack d)
           = Some (Some (if buffer 2 = 0x00
                         then tv\<lparr>active := (active tv)\<lparr>val := 1, newVal := 1\<rparr>\<rparr>
                         else tv))"
proof (cases "buffer 2 = 0x00")
  case True
  with assms show ?thesis by (simp add: handler_defs)
next
  case False
  with assms show ?thesis by (simp add: handler_defs)
qed

theorem image_view_on_sets_active_witness:
  "uint (bytes_at [0x04, 0x90, 0x00] 0) AND 0xf = LogicalAddress player
   \<and> bytes_at [0x04, 0x90, 0x00] 0 = 0x04 \<and> bytes_at [0x04, 0x90, 0x00] 1 = 0x90
   \<and> connectedTV player = Some Test_TV \<and> val (active Test_TV) = 0
   \<and> map_option connectedTV (OnReceiveComplete 4 0 (bytes_at [0x04, 0x90, 0x00]) 3 True player)
       = Some (Some (Test_TV\<lparr>active := \<lparr>val = 1, newVal = 1, updated = False\<rparr>\<rparr>))
   \<and> map_option connectedTV (OnReceiveComplete 4 0 (bytes_at [0x04, 0x90, 0x01]) 3 True player)
       = Some (Some Test_TV)"
  using image_view_on_sets_active [of "bytes_at [0x04, 0x90, 0x00]" player 3 Test_TV 4 0 True]
    image_view_on_sets_active [of "bytes_at [0x04, 0x90, 0x01]" player 3 Test_TV 4 0 True]
  by (simp add: input_defs)

subsection \<open>Intents from the accessory\<close>

text \<open>
  C5. Whenever the volume selector is updated, the speaker's update transmits exactly one
  frame, to \<open>0x40\<close>, of one byte: \<open>46\<close> when the new value is 0 (volume up) and \<open>8F\<close>
  for any other new value (volume down).
\<close>

theorem volume_selector_frames:
  assumes "updated (volume spk)"
  shows "transmitted (snd (HomeSpanTVSpeaker_update spk d))
           = transmitted d @ [(0x40, if newVal (volume spk) = 0 then [0x46] else [0x8f])]"
  using assms by (simp add: HomeSpanTVSpeaker_update_def Let_def effects cstr_def)

theorem volume_selector_frames_witness:
  "updated (volume \<lparr>volume = \<lparr>val = 0, newVal = 0, updated = True\<rparr>, volumeType = fresh 3\<rparr>)
   \<and> transmitted (snd (HomeSpanTVSpeaker_update
         \<lparr>volume = \<lparr>val = 0, newVal = 0, updated = True\<rparr>, volumeType = fresh 3\<rparr> player))
       = [(0x40, [0x46])]
   \<and> transmitted (snd (HomeSpanTVSpeaker_update
         \<lparr>volume = \<lparr>val = 0, newVal = 1, updated = True\<rparr>, volumeType = fresh 3\<rparr> player))
       = [(0x40, [0x8f])]"
  using volume_selector_frames
      [of "\<lparr>volume = \<lparr>val = 0, newVal = 0, updated = True\<rparr>, volumeType = fresh 3\<rparr>" player]
    volume_selector_frames
      [of "\<lparr>volume = \<lparr>val = 0, newVal = 1, updated = True\<rparr>, volumeType = fresh 3\<rparr>" player]
  by (simp add: input_defs)

text \<open>
  C7, as amended. For each of the remote keys 4, 5, 6, 7, 8, 9, 11 and 15 (up, down, left,
  right, select, back, play/pause, info) the television's update transmits exactly one frame
  for the key, after the power frame if Active was updated in the same call: to \<open>0x48\<close>,
  two bytes, the first \<open>44\<close> and the second given by the key: 01, 02, 03, 04, 44, 09, 44,
  35. The second byte is a function of the key, but not a one-to-one function.
\<close>

theorem remote_key_frames:
  assumes "updated (remoteKey tv)" and "k = newVal (remoteKey tv)"
    and "k \<in> {4, 5, 6, 7, 8, 9, 11, 15}"
  shows "transmitted (snd (HomeSpanTV_update tv d)) =
           transmitted d
           @ (if updated (active tv)
              then [if newVal (active tv) \<noteq> 0 then (0x0, [0x0d]) else (0x0F, [0x36])] else [])
           @ [(0x48, [0x44, if k = 4 then 0x01 else if k = 5 then 0x02 else if k = 6 then 0x03
                            else if k = 7 then 0x04 else if k = 8 then 0x44 else if k = 9 then 0x09
                            else if k = 11 then 0x44 else 0x35])]"
  using assms by (elim insertE emptyE; simp add: update_defs)

theorem remote_key_frames_witness:
  "updated (remoteKey (key_press 9))
   \<and> newVal (remoteKey (key_press 9)) \<in> {4, 5, 6, 7, 8, 9, 11, 15}
   \<and> transmitted (snd (HomeSpanTV_update (key_press 9) player)) = [(0x48, [0x44, 0x09])]"
  using remote_key_frames [of "key_press 9" 9 player]
  by (simp add: input_defs)

text \<open>
  C7 as stated fails: the select key (8) and the play/pause key (11) send the same frame,
  so the key code sent does not determine the key.
\<close>

theorem select_and_play_pause_same_frame:
  "transmitted (snd (HomeSpanTV_update (key_press 8) player)) = [(0x48, [0x44, 0x44])]
   \<and> transmitted (snd (HomeSpanTV_update (key_press 11) player)) = [(0x48, [0x44, 0x44])]"
  by (simp add: update_defs input_defs)

text \<open>
  C8, as amended. For every remote key value other than 4, 5, 6, 7, 8, 9, 11 and 15 the
  television's update returns true, its last line printed is the unknown-key line, and the
  key adds no frame: the frames transmitted are exactly the power frame when Active was
  updated in the same call, and none otherwise. The television object behind
  \<open>connectedTV\<close>, the logical address and the promiscuous flag are as they were.
\<close>

theorem unknown_key_ignored:
  assumes "updated (remoteKey tv)" and "newVal (remoteKey tv) \<notin> {4, 5, 6, 7, 8, 9, 11, 15}"
  shows "fst (HomeSpanTV_update tv d)
       \<and> last (printed (snd (HomeSpanTV_update tv d))) = (''UNKNOWN KEY\<newline>'', [])
       \<and> transmitted (snd (HomeSpanTV_update tv d)) =
           transmitted d
           @ (if updated (active tv)
              then [if newVal (active tv) \<noteq> 0 then (0x0, [0x0d]) else (0x0F, [0x36])] else [])
       \<and> connectedTV (snd (HomeSpanTV_update tv d)) = connectedTV d
       \<and> LogicalAddress (snd (HomeSpanTV_update tv d)) = LogicalAddress d
       \<and> Promiscuous (snd (HomeSpanTV_update tv d)) = Promiscuous d"
proof -
  have 1: "fst (HomeSpanTV_update tv d)"
    by (simp add: update_defs)
  have 2: "last (printed (snd (HomeSpanTV_update tv d))) = (''UNKNOWN KEY\<newline>'', [])"
    using assms by (simp add: update_defs)
  have 3: "transmitted (snd (HomeSpanTV_update tv d)) =
           transmitted d
           @ (if updated (active tv)
              then [if newVal (active tv) \<noteq> 0 then (0x0, [0x0d]) else (0x0F, [0x36])] else [])"
    using assms by (simp add: update_defs)
  have 4: "connectedTV (snd (HomeSpanTV_update tv d)) = connectedTV d"
    using assms by (simp add: update_defs)
  have 5: "LogicalAddress (snd (HomeSpanTV_update tv d)) = LogicalAddress d"
    using assms by (simp add: update_defs)
  have 6: "Promiscuous (snd (HomeSpanTV_update tv d)) = Promiscuous d"
    using assms by (simp add: update_defs)
  from 1 2 3 4 5 6 show ?thesis by blast
qed

theorem unknown_key_ignored_witness:
  "updated (remoteKey (key_press 10))
   \<and> newVal (remoteKey (key_press 10)) \<notin> {4, 5, 6, 7, 8, 9, 11, 15}
   \<and> fst (HomeSpanTV_update (key_press 10) player)
   \<and> last (printed (snd (HomeSpanTV_update (key_press 10) player))) = (''UNKNOWN KEY\<newline>'', [])
   \<and> transmitted (snd (HomeSpanTV_update (key_press 10) player)) = []
   \<and> connectedTV (snd (HomeSpanTV_update (key_press 10) player)) = Some Test_TV"
  using unknown_key_ignored [of "key_press 10" player]
  by (simp add: input_defs)

text \<open>
  C8 as stated fails where the same call also carries a power intent: key 10 is not in the
  table and Active is updated to 1, and the update transmits the one-byte frame \<open>0d\<close> to
  address 0 although nothing had been transmitted before.
\<close>

theorem unknown_key_with_power_on_transmits:
  "updated (remoteKey (key_press_with_power_on 10))
   \<and> newVal (remoteKey (key_press_with_power_on 10)) \<notin> {4, 5, 6, 7, 8, 9, 11, 15}
   \<and> transmitted player = []
   \<and> transmitted (snd (HomeSpanTV_update (key_press_with_power_on 10) player)) = [(0x0, [0x0d])]"
  by (simp add: update_defs input_defs)

subsection \<open>Readiness\<close>

text \<open>
  C4. Every \<open>OnReady\<close> callback hands exactly one frame to \<open>TransmitFrame\<close>: target address
  \<open>0xF\<close> (broadcast), bytes \<open>84 30 00\<close> and the device type, whatever logical address was
  assigned.
\<close>

theorem OnReady_reports_physical_address:
  "transmitted (OnReady ty logicalAddress d) = transmitted d @ [(0xF, [0x84, 0x30, 0x00, ty])]"
  by (simp add: OnReady_def Let_def effects report_physical_address_bytes)

end
